theory Spec2Isabelle
  imports Complex_Main "HOL-Library.Word"
begin

section \<open>The triangle program as a sequence of library calls\<close>

text \<open>
  The program of \<^verbatim>\<open>src/src/triangle.cpp\<close> computes nothing of its own: it is a fixed
  sequence of calls into GLFW, GLAD/OpenGL and spdlog, with three branches on what the
  libraries answer and one loop. The embedding therefore keeps a \<^emph>\<open>trace\<close> of the calls
  in the order the program issues them, next to the little library state the claims talk
  about (the window's close flag, the registered resize callback, the buffer bindings and
  the contents of the GPU buffers). Whatever the libraries answer is an input: the
  \<open>driver\<close> record holds the answers given during setup, a list of \<open>frame_input\<close>
  holds what the platform reports in each frame.
\<close>

subsection \<open>Values passed to the libraries\<close>

type_synonym GLuint = "32 word"
type_synonym window = nat

text \<open>The symbolic constants of the OpenGL and GLFW headers that the program names.\<close>

datatype gl_enum =
    GL_VERTEX_SHADER | GL_FRAGMENT_SHADER | GL_COMPILE_STATUS | GL_LINK_STATUS
  | GL_ARRAY_BUFFER | GL_ELEMENT_ARRAY_BUFFER | GL_STATIC_DRAW | GL_FLOAT
  | GL_COLOR_BUFFER_BIT | GL_TRIANGLES | GL_UNSIGNED_INT

datatype glfw_hint =
    GLFW_CONTEXT_VERSION_MAJOR | GLFW_CONTEXT_VERSION_MINOR | GLFW_OPENGL_PROFILE
  | GLFW_OPENGL_FORWARD_COMPAT

datatype hint_value = HintInt int | GLFW_OPENGL_CORE_PROFILE | GL_TRUE

datatype glfw_key = GLFW_KEY_ESCAPE

definition GLFW_PRESS :: int where
  "GLFW_PRESS = 1"

definition GLFW_RELEASE :: int where
  "GLFW_RELEASE = 0"

definition WINDOW_WIDTH :: int where
  "WINDOW_WIDTH = 800"

definition WINDOW_HEIGHT :: int where
  "WINDOW_HEIGHT = 600"

text \<open>
  Host arrays. A scalar is a \<^verbatim>\<open>float\<close> or an \<^verbatim>\<open>unsigned int\<close>, both four bytes wide;
  \<open>ByteOf x k\<close> is byte \<open>k\<close> of the object representation of \<open>x\<close>, so that a byte count
  handed to the driver can be compared with the array it points into without fixing an
  encoding. The float literals are the decimal literals of the source; no arithmetic is
  done on them.
\<close>

datatype scalar = Float real | UInt "32 word"

datatype cell = ByteOf scalar nat

definition sizeof_scalar :: nat where
  "sizeof_scalar = 4"

definition object_bytes :: "scalar list \<Rightarrow> cell list" where
  "object_bytes xs = concat (map (\<lambda>x. map (ByteOf x) [0..<sizeof_scalar]) xs)"

definition sizeof_array :: "scalar list \<Rightarrow> nat" where
  "sizeof_array xs = length xs * sizeof_scalar"

datatype log_arg = ArgInt int | ArgStr string

subsection \<open>Calls, inputs and state\<close>

text \<open>
  One constructor for each library function the program calls, with the arguments of the
  call. Left out are the arguments that are the same at every call site and carry no
  data: a \<^verbatim>\<open>nullptr\<close>, the address of a local that receives a result, the address of
  a fixed function. A pointer to data is represented by the data it points to.
\<close>

datatype call =
    SpdlogInfo string "log_arg list"
  | SpdlogError string "log_arg list"
  | GlfwInit
  | GlfwWindowHint glfw_hint hint_value
  | GlfwCreateWindow int int string
  | GlfwTerminate
  | GlfwMakeContextCurrent window
  | GlfwSetFramebufferSizeCallback window
  | GladLoadGLLoader
  | GlViewport int int int int
  | GlCreateShader gl_enum
  | GlShaderSource GLuint int string
  | GlCompileShader GLuint
  | GlGetShaderiv GLuint gl_enum
  | GlGetShaderInfoLog GLuint int
  | GlCreateProgram
  | GlAttachShader GLuint GLuint
  | GlLinkProgram GLuint
  | GlGetProgramiv GLuint gl_enum
  | GlGetProgramInfoLog GLuint int
  | GlDeleteShader GLuint
  | GlGenVertexArrays int
  | GlGenBuffers int
  | GlBindVertexArray GLuint
  | GlBindBuffer gl_enum GLuint
  | GlBufferData gl_enum nat "cell list" gl_enum
  | GlVertexAttribPointer GLuint int gl_enum bool nat nat
  | GlEnableVertexAttribArray GLuint
  | GlfwWindowShouldClose window
  | GlfwGetKey window glfw_key
  | GlfwSetWindowShouldClose window int
  | GlClearColor real real real real
  | GlClear gl_enum
  | GlUseProgram GLuint
  | GlDrawElements gl_enum int gl_enum nat
  | GlfwSwapBuffers window
  | GlfwPollEvents
  | GlDeleteVertexArrays int "GLuint list"
  | GlDeleteBuffers int "GLuint list"
  | GlDeleteProgram GLuint

text \<open>
  The header \<^verbatim>\<open>triangle_shader.H\<close> with the two shader sources is not among the source
  files, and \<^verbatim>\<open>__APPLE__\<close> is fixed by the compiler: both are parameters.
\<close>

record config =
  vertex_shader_src :: string
  fragment_shader_src :: string
  apple :: bool

text \<open>
  What the libraries answer during setup: the window handle (\<open>None\<close> is \<^verbatim>\<open>nullptr\<close>),
  the result of the loader, the object names the driver hands out, the three status
  values and the three strings the driver writes into \<^verbatim>\<open>info_log\<close>.
\<close>

record driver =
  create_window_result :: "window option"
  glad_load_result :: int
  vertex_shader_name :: GLuint
  vertex_compile_status :: int
  vertex_info_log :: string
  fragment_shader_name :: GLuint
  fragment_compile_status :: int
  fragment_info_log :: string
  program_name :: GLuint
  link_status :: int
  program_info_log :: string
  vao_name :: GLuint
  vbo_name :: GLuint
  ebo_name :: GLuint

datatype event = FramebufferSize int int | WindowClose

text \<open>
  One frame of platform input: what \<^verbatim>\<open>glfwGetKey\<close> answers for Escape, and the events
  that \<^verbatim>\<open>glfwPollEvents\<close> finds queued at the end of the frame.
\<close>

record frame_input =
  escape_key :: int
  events :: "event list"

record world =
  trace :: "call list"
  close_flag :: int
  framebuffer_size_callback_set :: bool
  array_buffer_binding :: GLuint
  element_array_buffer_binding :: GLuint
  buffer_store :: "GLuint \<rightharpoonup> cell list"

definition initial_world :: world where
  "initial_world =
     \<lparr>trace = [], close_flag = 0, framebuffer_size_callback_set = False,
      array_buffer_binding = 0, element_array_buffer_binding = 0,
      buffer_store = Map.empty\<rparr>"

definition emit :: "call \<Rightarrow> world \<Rightarrow> world" where
  "emit c s = s\<lparr>trace := trace s @ [c]\<rparr>"

subsection \<open>The library operations that change state\<close>

text \<open>
  These follow the contracts of the two external collaborators: the close flag is an
  integer stored with the window; \<^verbatim>\<open>glBindBuffer\<close> sets the binding of its target;
  \<^verbatim>\<open>glBufferData\<close> copies the first \<open>nbytes\<close> bytes found at the pointer into the buffer
  bound to the target (and fails without effect when none is bound, name 0);
  \<^verbatim>\<open>glDeleteBuffers\<close> frees the named buffers.
\<close>

definition glfwSetWindowShouldClose :: "window \<Rightarrow> int \<Rightarrow> world \<Rightarrow> world" where
  "glfwSetWindowShouldClose w v s = (emit (GlfwSetWindowShouldClose w v) s)\<lparr>close_flag := v\<rparr>"

definition glfwSetFramebufferSizeCallback :: "window \<Rightarrow> world \<Rightarrow> world" where
  "glfwSetFramebufferSizeCallback w s =
     (emit (GlfwSetFramebufferSizeCallback w) s)\<lparr>framebuffer_size_callback_set := True\<rparr>"

definition glBindBuffer :: "gl_enum \<Rightarrow> GLuint \<Rightarrow> world \<Rightarrow> world" where
  "glBindBuffer target b s =
     (let s' = emit (GlBindBuffer target b) s
      in if target = GL_ARRAY_BUFFER then s'\<lparr>array_buffer_binding := b\<rparr>
         else if target = GL_ELEMENT_ARRAY_BUFFER then s'\<lparr>element_array_buffer_binding := b\<rparr>
         else s')"

definition bound_buffer :: "gl_enum \<Rightarrow> world \<Rightarrow> GLuint" where
  "bound_buffer target s =
     (if target = GL_ARRAY_BUFFER then array_buffer_binding s
      else if target = GL_ELEMENT_ARRAY_BUFFER then element_array_buffer_binding s
      else 0)"

definition glBufferData :: "gl_enum \<Rightarrow> nat \<Rightarrow> cell list \<Rightarrow> gl_enum \<Rightarrow> world \<Rightarrow> world" where
  "glBufferData target nbytes data usage s =
     (let s' = emit (GlBufferData target nbytes data usage) s;
          b = bound_buffer target s'
      in if b = 0 then s'
         else s'\<lparr>buffer_store := (buffer_store s')(b \<mapsto> take nbytes data)\<rparr>)"

definition glDeleteBuffers :: "int \<Rightarrow> GLuint list \<Rightarrow> world \<Rightarrow> world" where
  "glDeleteBuffers n names s =
     (let s' = emit (GlDeleteBuffers n names) s
      in s'\<lparr>buffer_store := (\<lambda>b. if b \<in> set names then None else buffer_store s' b)\<rparr>)"

text \<open>
  \<^verbatim>\<open>glfwPollEvents\<close> drains the queued events on the calling thread: a resize runs the
  registered callback (the parameter \<open>cb\<close>, if one was registered), a close request of
  the platform sets the close flag of the window.
\<close>

fun dispatch :: "(int \<Rightarrow> int \<Rightarrow> world \<Rightarrow> world) \<Rightarrow> event \<Rightarrow> world \<Rightarrow> world" where
  "dispatch cb (FramebufferSize w h) s = (if framebuffer_size_callback_set s then cb w h s else s)"
| "dispatch cb WindowClose s = s\<lparr>close_flag := 1\<rparr>"

definition glfwPollEvents :: "(int \<Rightarrow> int \<Rightarrow> world \<Rightarrow> world) \<Rightarrow> event list \<Rightarrow> world \<Rightarrow> world" where
  "glfwPollEvents cb evs s = foldl (\<lambda>s e. dispatch cb e s) (emit GlfwPollEvents s) evs"

subsection \<open>\<^verbatim>\<open>src/src/triangle.cpp\<close>\<close>

text \<open>Lines 259 to 262.\<close>

definition framebuffer_resize_callback :: "window \<Rightarrow> int \<Rightarrow> int \<Rightarrow> world \<Rightarrow> world" where
  "framebuffer_resize_callback window width height s =
     emit (GlViewport 0 0 width height)
       (emit (SpdlogInfo ''Resizing framebuffer to {}x{}'' [ArgInt width, ArgInt height]) s)"

text \<open>Lines 264 to 269; \<open>key\<close> is what \<^verbatim>\<open>glfwGetKey\<close> returns.\<close>

definition escape_key_pressed_callback :: "window \<Rightarrow> int \<Rightarrow> world \<Rightarrow> world" where
  "escape_key_pressed_callback window key s =
     (let s1 = emit (GlfwGetKey window GLFW_KEY_ESCAPE) s
      in if key = GLFW_PRESS
         then glfwSetWindowShouldClose window 1 (emit (SpdlogInfo ''Escape key pressed'' []) s1)
         else s1)"

text \<open>
  Lines 29 to 70: GLFW, the window, the context and the loader. \<open>Inl\<close> is an early
  \<^verbatim>\<open>return\<close> of \<^verbatim>\<open>main\<close> with its exit status.
\<close>

definition main_window :: "config \<Rightarrow> driver \<Rightarrow> (int \<times> world) + (window \<times> world)" where
  "main_window cfg drv =
     (let s = emit (SpdlogInfo ''Initializing GLFW'' []) initial_world;
          s = emit GlfwInit s;
          s = emit (GlfwWindowHint GLFW_CONTEXT_VERSION_MAJOR (HintInt 3)) s;
          s = emit (GlfwWindowHint GLFW_CONTEXT_VERSION_MINOR (HintInt 3)) s;
          s = emit (GlfwWindowHint GLFW_OPENGL_PROFILE GLFW_OPENGL_CORE_PROFILE) s;
          s = emit (GlfwCreateWindow WINDOW_WIDTH WINDOW_HEIGHT ''gl'') s
      in case create_window_result drv of
           None \<Rightarrow>
             Inl (- 1, emit GlfwTerminate
                    (emit (SpdlogError ''Failed to create a GLFW window. Exiting.'' []) s))
         | Some window \<Rightarrow>
             (let s = (if apple cfg
                       then emit (GlfwWindowHint GLFW_OPENGL_FORWARD_COMPAT GL_TRUE) s else s);
                  s = emit (GlfwMakeContextCurrent window) s;
                  s = glfwSetFramebufferSizeCallback window s;
                  s = emit GladLoadGLLoader s
              in if glad_load_result drv = 0
                 then Inl (- 1, emit (SpdlogError ''Failed to initialize GLAD'' []) s)
                 else Inr (window, emit (GlViewport 0 0 WINDOW_WIDTH WINDOW_HEIGHT) s)))"

text \<open>Lines 72 to 126: the two shaders and the program; the result is \<^verbatim>\<open>shader_program\<close>.\<close>

definition main_shaders :: "config \<Rightarrow> driver \<Rightarrow> world \<Rightarrow> GLuint \<times> world" where
  "main_shaders cfg drv s0 =
     (let s = emit (GlCreateShader GL_VERTEX_SHADER) s0;
          vertex_shader = vertex_shader_name drv;
          s = emit (SpdlogInfo ''Compiling vertex shader'' []) s;
          s = emit (GlShaderSource vertex_shader 1 (vertex_shader_src cfg)) s;
          s = emit (GlCompileShader vertex_shader) s;
          s = emit (GlGetShaderiv vertex_shader GL_COMPILE_STATUS) s;
          s = (if vertex_compile_status drv = 0
               then emit (SpdlogError ''Vertex shader compilation failed: {}''
                            [ArgStr (vertex_info_log drv)])
                      (emit (GlGetShaderInfoLog vertex_shader 512) s)
               else s);
          s = emit (GlCreateShader GL_FRAGMENT_SHADER) s;
          fragment_shader = fragment_shader_name drv;
          s = emit (GlShaderSource fragment_shader 1 (fragment_shader_src cfg)) s;
          s = emit (GlCompileShader fragment_shader) s;
          s = emit (GlGetShaderiv fragment_shader GL_COMPILE_STATUS) s;
          s = (if fragment_compile_status drv = 0
               then emit (SpdlogError ''Fragment shader compilation failed: {}''
                            [ArgStr (fragment_info_log drv)])
                      (emit (GlGetShaderInfoLog fragment_shader 512) s)
               else s);
          s = emit GlCreateProgram s;
          shader_program = program_name drv;
          s = emit (GlAttachShader shader_program vertex_shader) s;
          s = emit (GlAttachShader shader_program fragment_shader) s;
          s = emit (GlLinkProgram shader_program) s;
          s = emit (GlGetProgramiv shader_program GL_LINK_STATUS) s;
          s = (if link_status drv = 0
               then emit (SpdlogError ''Shader program compilation failed: {}''
                            [ArgStr (program_info_log drv)])
                      (emit (GlGetProgramInfoLog shader_program 512) s)
               else s);
          s = emit (GlDeleteShader vertex_shader) s;
          s = emit (GlDeleteShader fragment_shader) s
      in (shader_program, s))"

text \<open>Lines 132 to 140.\<close>

definition vertices :: "scalar list" where
  "vertices =
     [Float (- 0.5), Float (- 0.5), Float 0.0,
      Float 0.5, Float (- 0.5), Float 0.0,
      Float 0.0, Float 0.5, Float 0.0]"

definition indices :: "scalar list" where
  "indices = [UInt 0, UInt 1, UInt 2]"

text \<open>Lines 148 to 209: the vertex array, the two buffers, the two uploads, the layout.\<close>

record handles =
  h_window :: window
  h_shader_program :: GLuint
  h_VAO :: GLuint
  h_VBO :: GLuint
  h_EBO :: GLuint

definition main_buffers :: "driver \<Rightarrow> world \<Rightarrow> GLuint \<times> GLuint \<times> GLuint \<times> world" where
  "main_buffers drv s0 =
     (let s = emit (GlGenVertexArrays 1) s0;
          VAO = vao_name drv;
          s = emit (GlGenBuffers 1) s;
          VBO = vbo_name drv;
          s = emit (GlGenBuffers 1) s;
          EBO = ebo_name drv;
          s = emit (GlBindVertexArray VAO) s;
          s = emit (SpdlogInfo ''Copying triangle vertex data to vertix buffer'' []) s;
          s = glBindBuffer GL_ARRAY_BUFFER VBO s;
          s = glBufferData GL_ARRAY_BUFFER (sizeof_array vertices) (object_bytes vertices)
                GL_STATIC_DRAW s;
          s = emit (SpdlogInfo ''Copying triangle element indices to element buffer'' []) s;
          s = glBindBuffer GL_ELEMENT_ARRAY_BUFFER EBO s;
          s = glBufferData GL_ELEMENT_ARRAY_BUFFER (sizeof_array indices) (object_bytes indices)
                GL_STATIC_DRAW s;
          s = emit (GlVertexAttribPointer 0 3 GL_FLOAT False (3 * sizeof_scalar) 0) s;
          s = emit (GlEnableVertexAttribArray 0) s
      in (VAO, VBO, EBO, s))"

text \<open>Everything before the loop, lines 29 to 213.\<close>

definition main_setup :: "config \<Rightarrow> driver \<Rightarrow> (int \<times> world) + (handles \<times> world)" where
  "main_setup cfg drv =
     (case main_window cfg drv of
        Inl r \<Rightarrow> Inl r
      | Inr (window, s) \<Rightarrow>
          (let (shader_program, s) = main_shaders cfg drv s;
               (VAO, VBO, EBO, s) = main_buffers drv s
           in Inr (\<lparr>h_window = window, h_shader_program = shader_program,
                     h_VAO = VAO, h_VBO = VBO, h_EBO = EBO\<rparr>, s)))"

text \<open>Lines 216 to 247: the body of the loop, one frame.\<close>

definition render_frame :: "handles \<Rightarrow> frame_input \<Rightarrow> world \<Rightarrow> world" where
  "render_frame h f s0 =
     (let s = escape_key_pressed_callback (h_window h) (escape_key f) s0;
          s = emit (GlClearColor 0.11 0.11 0.11 1.0) s;
          s = emit (GlClear GL_COLOR_BUFFER_BIT) s;
          s = emit (GlUseProgram (h_shader_program h)) s;
          s = emit (GlBindVertexArray (h_VAO h)) s;
          s = emit (GlDrawElements GL_TRIANGLES 3 GL_UNSIGNED_INT 0) s;
          s = emit (GlBindVertexArray 0) s;
          s = emit (GlfwSwapBuffers (h_window h)) s
      in glfwPollEvents (framebuffer_resize_callback (h_window h)) (events f) s)"

text \<open>
  Lines 215 to 248. The loop runs as long as the platform keeps the window open, so the
  list of frame inputs is what bounds it here: \<open>None\<close> says that the inputs ran out with
  the program still in the loop.
\<close>

fun render_loop :: "handles \<Rightarrow> frame_input list \<Rightarrow> world \<Rightarrow> world option" where
  "render_loop h [] s =
     (let s' = emit (GlfwWindowShouldClose (h_window h)) s
      in if close_flag s' \<noteq> 0 then Some s' else None)"
| "render_loop h (f # fs) s =
     (let s' = emit (GlfwWindowShouldClose (h_window h)) s
      in if close_flag s' \<noteq> 0 then Some s' else render_loop h fs (render_frame h f s'))"

text \<open>Lines 250 to 256.\<close>

definition main_teardown :: "handles \<Rightarrow> world \<Rightarrow> int \<times> world" where
  "main_teardown h s0 =
     (let s = emit (GlDeleteVertexArrays 1 [h_VAO h]) s0;
          s = glDeleteBuffers 1 [h_VBO h] s;
          s = glDeleteBuffers 1 [h_EBO h] s;
          s = emit (GlDeleteProgram (h_shader_program h)) s;
          s = emit GlfwTerminate s
      in (0, s))"

text \<open>\<^verbatim>\<open>main\<close>: the exit status and the final state, if the loop was left.\<close>

definition main :: "config \<Rightarrow> driver \<Rightarrow> frame_input list \<Rightarrow> (int \<times> world) option" where
  "main cfg drv frames =
     (case main_setup cfg drv of
        Inl r \<Rightarrow> Some r
      | Inr (h, s) \<Rightarrow>
          (case render_loop h frames s of
             None \<Rightarrow> None
           | Some s' \<Rightarrow> Some (main_teardown h s')))"

subsection \<open>Observations on traces\<close>

text \<open>
  The definitions below are not part of the program; the theorems are stated with them.
  \<open>emits\<close> appends several calls at once. The predicates select the calls of one kind
  from a trace: the calls the loop can issue, the calls that release something, the
  calls that create a GPU object, the
  calls that only report a failed compilation or link, the buffer uploads, the calls that
  set the close flag, those that would clear it, and the viewport updates.
\<close>

definition emits :: "call list \<Rightarrow> world \<Rightarrow> world" where
  "emits cs s = s\<lparr>trace := trace s @ cs\<rparr>"

fun is_loop_call :: "call \<Rightarrow> bool" where
  "is_loop_call (GlfwWindowShouldClose w) = True"
| "is_loop_call (GlfwGetKey w k) = True"
| "is_loop_call (SpdlogInfo m args) = True"
| "is_loop_call (GlfwSetWindowShouldClose w v) = (v = 1)"
| "is_loop_call (GlClearColor r g b a) = True"
| "is_loop_call (GlClear m) = True"
| "is_loop_call (GlUseProgram p) = True"
| "is_loop_call (GlBindVertexArray v) = True"
| "is_loop_call (GlDrawElements m n t off) = True"
| "is_loop_call (GlfwSwapBuffers w) = True"
| "is_loop_call GlfwPollEvents = True"
| "is_loop_call (GlViewport x y w h) = True"
| "is_loop_call _ = False"

fun is_release_call :: "call \<Rightarrow> bool" where
  "is_release_call (GlDeleteShader x) = True"
| "is_release_call (GlDeleteVertexArrays n xs) = True"
| "is_release_call (GlDeleteBuffers n xs) = True"
| "is_release_call (GlDeleteProgram x) = True"
| "is_release_call GlfwTerminate = True"
| "is_release_call _ = False"

fun is_create_call :: "call \<Rightarrow> bool" where
  "is_create_call (GlCreateShader t) = True"
| "is_create_call GlCreateProgram = True"
| "is_create_call (GlGenVertexArrays n) = True"
| "is_create_call (GlGenBuffers n) = True"
| "is_create_call _ = False"

fun is_diagnostic :: "call \<Rightarrow> bool" where
  "is_diagnostic (SpdlogError m args) = True"
| "is_diagnostic (GlGetShaderInfoLog x n) = True"
| "is_diagnostic (GlGetProgramInfoLog x n) = True"
| "is_diagnostic _ = False"

fun is_buffer_data :: "call \<Rightarrow> bool" where
  "is_buffer_data (GlBufferData t n d u) = True"
| "is_buffer_data _ = False"

fun is_set_should_close :: "call \<Rightarrow> bool" where
  "is_set_should_close (GlfwSetWindowShouldClose w v) = True"
| "is_set_should_close _ = False"

fun resets_close_flag :: "call \<Rightarrow> bool" where
  "resets_close_flag (GlfwSetWindowShouldClose w v) = (v = 0)"
| "resets_close_flag _ = False"

fun is_viewport :: "call \<Rightarrow> bool" where
  "is_viewport (GlViewport x y w h) = True"
| "is_viewport _ = False"

text \<open>
  The calls of one frame, in three parts: the Escape check, the fixed drawing sequence up
  to the poll, and what each polled event leads to (\<open>reg\<close> says whether the resize
  callback is registered).
\<close>

definition escape_calls :: "window \<Rightarrow> int \<Rightarrow> call list" where
  "escape_calls w key =
     GlfwGetKey w GLFW_KEY_ESCAPE #
     (if key = GLFW_PRESS
      then [SpdlogInfo ''Escape key pressed'' [], GlfwSetWindowShouldClose w 1] else [])"

definition draw_calls :: "handles \<Rightarrow> call list" where
  "draw_calls h =
     [GlClearColor 0.11 0.11 0.11 1.0, GlClear GL_COLOR_BUFFER_BIT,
      GlUseProgram (h_shader_program h), GlBindVertexArray (h_VAO h),
      GlDrawElements GL_TRIANGLES 3 GL_UNSIGNED_INT 0,
      GlBindVertexArray 0,
      GlfwSwapBuffers (h_window h),
      GlfwPollEvents]"

fun event_calls :: "bool \<Rightarrow> event \<Rightarrow> call list" where
  "event_calls reg (FramebufferSize w h) =
     (if reg then [SpdlogInfo ''Resizing framebuffer to {}x{}'' [ArgInt w, ArgInt h],
                   GlViewport 0 0 w h] else [])"
| "event_calls reg WindowClose = []"

text \<open>
  One iteration of the loop as the specification lists it: the check of the close flag at
  the head, then the seven steps.
\<close>

definition iteration_calls :: "handles \<Rightarrow> bool \<Rightarrow> frame_input \<Rightarrow> call list" where
  "iteration_calls h reg f =
     [GlfwWindowShouldClose (h_window h)] @
     escape_calls (h_window h) (escape_key f) @
     draw_calls h @
     concat (map (event_calls reg) (events f))"

text \<open>A frame in which one of the two sources sets the close flag.\<close>

definition frame_closes :: "frame_input \<Rightarrow> bool" where
  "frame_closes f = (escape_key f = GLFW_PRESS \<or> WindowClose \<in> set (events f))"

text \<open>The calls of the three parts of setup when window and loader succeed.\<close>

definition window_calls :: "config \<Rightarrow> window \<Rightarrow> call list" where
  "window_calls cfg w =
     [SpdlogInfo ''Initializing GLFW'' [], GlfwInit,
      GlfwWindowHint GLFW_CONTEXT_VERSION_MAJOR (HintInt 3),
      GlfwWindowHint GLFW_CONTEXT_VERSION_MINOR (HintInt 3),
      GlfwWindowHint GLFW_OPENGL_PROFILE GLFW_OPENGL_CORE_PROFILE,
      GlfwCreateWindow 800 600 ''gl''] @
     (if apple cfg then [GlfwWindowHint GLFW_OPENGL_FORWARD_COMPAT GL_TRUE] else []) @
     [GlfwMakeContextCurrent w, GlfwSetFramebufferSizeCallback w, GladLoadGLLoader]"

definition shader_calls :: "config \<Rightarrow> driver \<Rightarrow> call list" where
  "shader_calls cfg drv =
     [GlCreateShader GL_VERTEX_SHADER, SpdlogInfo ''Compiling vertex shader'' [],
      GlShaderSource (vertex_shader_name drv) 1 (vertex_shader_src cfg),
      GlCompileShader (vertex_shader_name drv),
      GlGetShaderiv (vertex_shader_name drv) GL_COMPILE_STATUS] @
     (if vertex_compile_status drv = 0
      then [GlGetShaderInfoLog (vertex_shader_name drv) 512,
            SpdlogError ''Vertex shader compilation failed: {}'' [ArgStr (vertex_info_log drv)]]
      else []) @
     [GlCreateShader GL_FRAGMENT_SHADER,
      GlShaderSource (fragment_shader_name drv) 1 (fragment_shader_src cfg),
      GlCompileShader (fragment_shader_name drv),
      GlGetShaderiv (fragment_shader_name drv) GL_COMPILE_STATUS] @
     (if fragment_compile_status drv = 0
      then [GlGetShaderInfoLog (fragment_shader_name drv) 512,
            SpdlogError ''Fragment shader compilation failed: {}''
              [ArgStr (fragment_info_log drv)]]
      else []) @
     [GlCreateProgram,
      GlAttachShader (program_name drv) (vertex_shader_name drv),
      GlAttachShader (program_name drv) (fragment_shader_name drv),
      GlLinkProgram (program_name drv),
      GlGetProgramiv (program_name drv) GL_LINK_STATUS] @
     (if link_status drv = 0
      then [GlGetProgramInfoLog (program_name drv) 512,
            SpdlogError ''Shader program compilation failed: {}''
              [ArgStr (program_info_log drv)]]
      else []) @
     [GlDeleteShader (vertex_shader_name drv), GlDeleteShader (fragment_shader_name drv)]"

definition buffer_calls :: "driver \<Rightarrow> call list" where
  "buffer_calls drv =
     [GlGenVertexArrays 1, GlGenBuffers 1, GlGenBuffers 1, GlBindVertexArray (vao_name drv),
      SpdlogInfo ''Copying triangle vertex data to vertix buffer'' [],
      GlBindBuffer GL_ARRAY_BUFFER (vbo_name drv),
      GlBufferData GL_ARRAY_BUFFER 36 (object_bytes vertices) GL_STATIC_DRAW,
      SpdlogInfo ''Copying triangle element indices to element buffer'' [],
      GlBindBuffer GL_ELEMENT_ARRAY_BUFFER (ebo_name drv),
      GlBufferData GL_ELEMENT_ARRAY_BUFFER 12 (object_bytes indices) GL_STATIC_DRAW,
      GlVertexAttribPointer 0 3 GL_FLOAT False 12 0,
      GlEnableVertexAttribArray 0]"

definition teardown_calls :: "handles \<Rightarrow> call list" where
  "teardown_calls h =
     [GlDeleteVertexArrays 1 [h_VAO h], GlDeleteBuffers 1 [h_VBO h],
      GlDeleteBuffers 1 [h_EBO h], GlDeleteProgram (h_shader_program h), GlfwTerminate]"

text \<open>
  The same driver with all three status values reporting success, and a state with the
  diagnostic calls taken out of its trace: the run to compare a failed compilation with.
\<close>

definition all_shaders_ok :: "driver \<Rightarrow> driver" where
  "all_shaders_ok drv =
     drv\<lparr>vertex_compile_status := 1, fragment_compile_status := 1, link_status := 1\<rparr>"

definition without_diagnostics :: "world \<Rightarrow> world" where
  "without_diagnostics s = s\<lparr>trace := filter (\<lambda>c. \<not> is_diagnostic c) (trace s)\<rparr>"

text \<open>Concrete inputs for the instances below.\<close>

definition example_config :: config where
  "example_config =
     \<lparr>vertex_shader_src = ''void main() {}'', fragment_shader_src = ''void main() {}'',
      apple = False\<rparr>"

definition example_driver :: driver where
  "example_driver =
     \<lparr>create_window_result = Some 1, glad_load_result = 1,
      vertex_shader_name = 1, vertex_compile_status = 1, vertex_info_log = [],
      fragment_shader_name = 2, fragment_compile_status = 1, fragment_info_log = [],
      program_name = 3, link_status = 1, program_info_log = [],
      vao_name = 1, vbo_name = 1, ebo_name = 2\<rparr>"

definition example_handles :: handles where
  "example_handles =
     \<lparr>h_window = 1, h_shader_program = 3, h_VAO = 1, h_VBO = 1, h_EBO = 2\<rparr>"

definition example_frames :: "frame_input list" where
  "example_frames =
     [\<lparr>escape_key = 0, events = [FramebufferSize 640 480]\<rparr>,
      \<lparr>escape_key = 1, events = []\<rparr>]"

section \<open>Properties\<close>

subsection \<open>Traces as appended lists\<close>

lemma emit_emits: "emit c s = emits [c] s"
  by (simp add: emit_def emits_def)

lemma emits_emits: "emits bs (emits as s) = emits (as @ bs) s"
  by (simp add: emits_def)

lemma if_emits: "(if c then emits as s else s) = emits (if c then as else []) s"
  by (simp add: emits_def)


lemma loop_calls_keep:
  assumes "list_all is_loop_call xs"
  shows "filter is_release_call xs = []" and "filter is_buffer_data xs = []"
    and "filter resets_close_flag xs = []" and "filter (\<lambda>c. \<not> is_diagnostic c) xs = xs"
    and "filter is_create_call xs = []"
proof -
  have "is_loop_call c \<Longrightarrow>
        \<not> is_release_call c \<and> \<not> is_buffer_data c \<and> \<not> resets_close_flag c \<and>
        \<not> is_diagnostic c \<and> \<not> is_create_call c"
    for c
    by (cases c) simp_all
  with assms show "filter is_release_call xs = []" and "filter is_buffer_data xs = []"
    and "filter resets_close_flag xs = []" and "filter (\<lambda>c. \<not> is_diagnostic c) xs = xs"
    and "filter is_create_call xs = []"
    by (induction xs) auto
qed

subsection \<open>One frame\<close>

lemma dispatch_eq:
  "dispatch (framebuffer_resize_callback w) e s =
   s\<lparr>trace := trace s @ event_calls (framebuffer_size_callback_set s) e,
     close_flag := (if e = WindowClose then 1 else close_flag s)\<rparr>"
  by (cases e) (simp_all add: framebuffer_resize_callback_def emit_def)

lemma dispatch_all:
  "foldl (\<lambda>s e. dispatch (framebuffer_resize_callback w) e s) s evs =
   s\<lparr>trace := trace s @ concat (map (event_calls (framebuffer_size_callback_set s)) evs),
     close_flag := (if WindowClose \<in> set evs then 1 else close_flag s)\<rparr>"
proof (induction evs arbitrary: s)
  case Nil
  show ?case by simp
next
  case (Cons e evs)
  let ?s1 = "dispatch (framebuffer_resize_callback w) e s"
  have "foldl (\<lambda>s e. dispatch (framebuffer_resize_callback w) e s) s (e # evs) =
        foldl (\<lambda>s e. dispatch (framebuffer_resize_callback w) e s) ?s1 evs"
    by simp
  also have "\<dots> =
        ?s1\<lparr>trace := trace ?s1 @
                  concat (map (event_calls (framebuffer_size_callback_set ?s1)) evs),
            close_flag := (if WindowClose \<in> set evs then 1 else close_flag ?s1)\<rparr>"
    by (rule Cons.IH)
  also have "\<dots> =
        s\<lparr>trace := trace s @
                concat (map (event_calls (framebuffer_size_callback_set s)) (e # evs)),
          close_flag := (if WindowClose \<in> set (e # evs) then 1 else close_flag s)\<rparr>"
    by (simp add: dispatch_eq)
  finally show ?case .
qed

lemma glfwPollEvents_eq:
  "glfwPollEvents (framebuffer_resize_callback w) evs s =
   s\<lparr>trace := trace s @ GlfwPollEvents #
                 concat (map (event_calls (framebuffer_size_callback_set s)) evs),
     close_flag := (if WindowClose \<in> set evs then 1 else close_flag s)\<rparr>"
  by (simp add: glfwPollEvents_def dispatch_all emit_def)

lemma escape_key_pressed_callback_eq:
  "escape_key_pressed_callback w key s =
   s\<lparr>trace := trace s @ escape_calls w key,
     close_flag := (if key = GLFW_PRESS then 1 else close_flag s)\<rparr>"
  by (simp add: escape_key_pressed_callback_def escape_calls_def glfwSetWindowShouldClose_def
      emit_def Let_def)

lemma render_frame_eq:
  "render_frame h f s =
   s\<lparr>trace := trace s @ escape_calls (h_window h) (escape_key f) @ draw_calls h @
                 concat (map (event_calls (framebuffer_size_callback_set s)) (events f)),
     close_flag := (if frame_closes f then 1 else close_flag s)\<rparr>"
  by (simp add: render_frame_def escape_key_pressed_callback_eq glfwPollEvents_eq emit_def
      Let_def draw_calls_def frame_closes_def)

lemma event_calls_loop: "list_all is_loop_call (concat (map (event_calls reg) evs))"
proof -
  have "list_all is_loop_call (event_calls reg e)" for e
    by (cases e) simp_all
  then show ?thesis
    by (induction evs) simp_all
qed

lemma frame_calls_loop:
  "list_all is_loop_call (escape_calls w key @ draw_calls h @ concat (map (event_calls reg) evs))"
  by (simp add: escape_calls_def draw_calls_def event_calls_loop)

subsection \<open>The loop\<close>

lemma render_loop_exit:
  "close_flag s \<noteq> 0 \<Longrightarrow>
   render_loop h fs s = Some (emit (GlfwWindowShouldClose (h_window h)) s)"
  by (cases fs) (simp_all add: emit_def)

lemma render_loop_step:
  "close_flag s = 0 \<Longrightarrow>
   render_loop h (f # fs) s =
   render_loop h fs (render_frame h f (emit (GlfwWindowShouldClose (h_window h)) s))"
  by (simp add: emit_def)

lemma render_loop_trace:
  "render_loop h fs s = Some s' \<Longrightarrow>
   \<exists>ext. trace s' = trace s @ ext \<and> list_all is_loop_call ext"
proof (induction fs arbitrary: s)
  case Nil
  then show ?case by (simp add: emit_def Let_def split: if_splits) auto
next
  case (Cons f fs)
  show ?case
  proof (cases "close_flag s = 0")
    case False
    with Cons.prems show ?thesis by (auto simp: render_loop_exit emit_def)
  next
    case True
    let ?s1 = "render_frame h f (emit (GlfwWindowShouldClose (h_window h)) s)"
    from True Cons.prems have "render_loop h fs ?s1 = Some s'"
      by (simp only: render_loop_step)
    from Cons.IH [OF this] obtain ext where
      ext: "trace s' = trace ?s1 @ ext" "list_all is_loop_call ext" by blast
    have "trace ?s1 = trace s @ GlfwWindowShouldClose (h_window h) #
            (escape_calls (h_window h) (escape_key f) @ draw_calls h @
             concat (map (event_calls (framebuffer_size_callback_set s)) (events f)))"
      by (simp add: render_frame_eq emit_def)
    with ext frame_calls_loop [of "h_window h" "escape_key f" h
        "framebuffer_size_callback_set s" "events f"]
    show ?thesis by simp
  qed
qed


lemma render_loop_terminates:
  "list_ex frame_closes fs \<Longrightarrow> \<exists>s'. render_loop h fs s = Some s'"
proof (induction fs arbitrary: s)
  case Nil
  then show ?case by simp
next
  case (Cons f fs)
  show ?case
  proof (cases "close_flag s = 0")
    case False
    then have "render_loop h (f # fs) s = Some (emit (GlfwWindowShouldClose (h_window h)) s)"
      by (rule render_loop_exit)
    then show ?thesis by blast
  next
    case True
    let ?s1 = "render_frame h f (emit (GlfwWindowShouldClose (h_window h)) s)"
    show ?thesis
    proof (cases "frame_closes f")
      case True
      then have "close_flag ?s1 \<noteq> 0" by (simp add: render_frame_eq)
      then have "render_loop h fs ?s1 = Some (emit (GlfwWindowShouldClose (h_window h)) ?s1)"
        by (rule render_loop_exit)
      with \<open>close_flag s = 0\<close> show ?thesis by (simp only: render_loop_step) blast
    next
      case False
      with Cons.prems have "list_ex frame_closes fs" by simp
      from Cons.IH [OF this] show ?thesis
        using \<open>close_flag s = 0\<close> by (simp only: render_loop_step)
    qed
  qed
qed

lemma render_loop_run:
  assumes "close_flag s = 0" and "\<not> list_ex frame_closes pre" and "frame_closes fc"
  shows "render_loop h (pre @ fc # rest) s =
         Some (s\<lparr>trace := trace s @
                   concat (map (iteration_calls h (framebuffer_size_callback_set s))
                     (pre @ [fc])) @
                   [GlfwWindowShouldClose (h_window h)],
                 close_flag := 1\<rparr>)"
  using assms(1,2)
proof (induction pre arbitrary: s)
  case Nil
  let ?s1 = "render_frame h fc (emit (GlfwWindowShouldClose (h_window h)) s)"
  from assms(3) have "close_flag ?s1 \<noteq> 0"
    by (simp add: render_frame_eq)
  then have "render_loop h rest ?s1 = Some (emit (GlfwWindowShouldClose (h_window h)) ?s1)"
    by (rule render_loop_exit)
  with Nil.prems(1) have "render_loop h ([] @ fc # rest) s =
      Some (emit (GlfwWindowShouldClose (h_window h)) ?s1)"
    by (simp only: append_Nil render_loop_step)
  also have "emit (GlfwWindowShouldClose (h_window h)) ?s1 =
      s\<lparr>trace := trace s @
            concat (map (iteration_calls h (framebuffer_size_callback_set s)) ([] @ [fc])) @
            [GlfwWindowShouldClose (h_window h)],
        close_flag := 1\<rparr>"
    using assms(3) by (simp add: render_frame_eq emit_def iteration_calls_def)
  finally show ?case .
next
  case (Cons f pre)
  let ?s1 = "render_frame h f (emit (GlfwWindowShouldClose (h_window h)) s)"
  from Cons.prems have nf: "\<not> frame_closes f" and np: "\<not> list_ex frame_closes pre"
    by simp_all
  from nf Cons.prems(1) have flag: "close_flag ?s1 = 0"
    by (simp add: render_frame_eq emit_def)
  have reg: "framebuffer_size_callback_set ?s1 = framebuffer_size_callback_set s"
    by (simp add: render_frame_eq emit_def)
  from Cons.prems(1) have "render_loop h ((f # pre) @ fc # rest) s =
      render_loop h (pre @ fc # rest) ?s1"
    by (simp only: append_Cons render_loop_step)
  also have "\<dots> =
      Some (?s1\<lparr>trace := trace ?s1 @
                   concat (map (iteration_calls h (framebuffer_size_callback_set ?s1))
                     (pre @ [fc])) @
                   [GlfwWindowShouldClose (h_window h)],
                 close_flag := 1\<rparr>)"
    by (rule Cons.IH [OF flag np])
  also have "?s1\<lparr>trace := trace ?s1 @
                   concat (map (iteration_calls h (framebuffer_size_callback_set ?s1))
                     (pre @ [fc])) @
                   [GlfwWindowShouldClose (h_window h)],
                 close_flag := 1\<rparr> =
      s\<lparr>trace := trace s @
            concat (map (iteration_calls h (framebuffer_size_callback_set s))
              ((f # pre) @ [fc])) @
            [GlfwWindowShouldClose (h_window h)],
        close_flag := 1\<rparr>"
    unfolding reg using nf by (simp add: render_frame_eq emit_def iteration_calls_def)
  finally show ?case .
qed

lemma render_frame_without_diagnostics:
  "render_frame h f (without_diagnostics s) = without_diagnostics (render_frame h f s)"
proof -
  let ?new = "escape_calls (h_window h) (escape_key f) @ draw_calls h @
              concat (map (event_calls (framebuffer_size_callback_set s)) (events f))"
  have "filter (\<lambda>c. \<not> is_diagnostic c) ?new = ?new"
    by (rule loop_calls_keep(4) [OF frame_calls_loop])
  then have "filter (\<lambda>c. \<not> is_diagnostic c) (trace s @ ?new) =
             filter (\<lambda>c. \<not> is_diagnostic c) (trace s) @ ?new"
    by (simp only: filter_append)
  then show ?thesis
    by (simp add: render_frame_eq without_diagnostics_def del: filter_append)
qed

lemma render_loop_without_diagnostics:
  "render_loop h fs (without_diagnostics s) =
   map_option without_diagnostics (render_loop h fs s)"
proof (induction fs arbitrary: s)
  case Nil
  show ?case by (simp add: without_diagnostics_def emit_def)
next
  case (Cons f fs)
  have head: "emit (GlfwWindowShouldClose (h_window h)) (without_diagnostics s) =
        without_diagnostics (emit (GlfwWindowShouldClose (h_window h)) s)"
    by (simp add: without_diagnostics_def emit_def)
  have flag: "close_flag (without_diagnostics s) = close_flag s"
    by (simp add: without_diagnostics_def)
  show ?case
  proof (cases "close_flag s = 0")
    case False
    then have "close_flag (without_diagnostics s) \<noteq> 0"
      by (simp add: flag)
    then have "render_loop h (f # fs) (without_diagnostics s) =
        Some (emit (GlfwWindowShouldClose (h_window h)) (without_diagnostics s))"
      by (rule render_loop_exit)
    moreover from False have "render_loop h (f # fs) s =
        Some (emit (GlfwWindowShouldClose (h_window h)) s)"
      by (rule render_loop_exit)
    ultimately show ?thesis by (simp only: head option.map)
  next
    case True
    then have "close_flag (without_diagnostics s) = 0"
      by (simp add: flag)
    then have "render_loop h (f # fs) (without_diagnostics s) =
        render_loop h fs (render_frame h f
          (emit (GlfwWindowShouldClose (h_window h)) (without_diagnostics s)))"
      by (rule render_loop_step)
    also have "\<dots> = render_loop h fs (without_diagnostics
          (render_frame h f (emit (GlfwWindowShouldClose (h_window h)) s)))"
      by (simp only: head render_frame_without_diagnostics)
    also have "\<dots> = map_option without_diagnostics
          (render_loop h fs (render_frame h f (emit (GlfwWindowShouldClose (h_window h)) s)))"
      by (rule Cons.IH)
    also from True have "\<dots> = map_option without_diagnostics (render_loop h (f # fs) s)"
      by (simp only: render_loop_step)
    finally show ?thesis .
  qed
qed

subsection \<open>Setup and teardown\<close>

lemma main_window_Inr:
  assumes "main_window cfg drv = Inr (w, s)"
  shows "create_window_result drv = Some w" and "glad_load_result drv \<noteq> 0"
  using assms
  by (simp_all add: main_window_def Let_def split: option.splits if_splits)

lemma main_window_ok:
  assumes "create_window_result drv = Some w" and "glad_load_result drv \<noteq> 0"
  shows "main_window cfg drv =
         Inr (w, (emits (window_calls cfg w @ [GlViewport 0 0 800 600]) initial_world)
                   \<lparr>framebuffer_size_callback_set := True\<rparr>)"
  using assms
  by (simp add: main_window_def Let_def emit_def emits_def initial_world_def window_calls_def
      glfwSetFramebufferSizeCallback_def WINDOW_WIDTH_def WINDOW_HEIGHT_def)

lemma main_shaders_eq:
  "main_shaders cfg drv s = (program_name drv, emits (shader_calls cfg drv) s)"
  by (simp add: main_shaders_def Let_def emit_emits emits_emits if_emits shader_calls_def)

lemma length_object_bytes: "length (object_bytes xs) = sizeof_array xs"
  by (induction xs) (simp_all add: object_bytes_def sizeof_array_def)

lemma sizeof_vertices: "sizeof_array vertices = 36"
  by (simp add: sizeof_array_def vertices_def sizeof_scalar_def)

lemma sizeof_indices: "sizeof_array indices = 12"
  by (simp add: sizeof_array_def indices_def sizeof_scalar_def)

lemma take_vertices: "take 36 (object_bytes vertices) = object_bytes vertices"
  by (simp add: length_object_bytes sizeof_vertices)

lemma take_indices: "take 12 (object_bytes indices) = object_bytes indices"
  by (simp add: length_object_bytes sizeof_indices)

lemma main_buffers_eq:
  "main_buffers drv s =
   (vao_name drv, vbo_name drv, ebo_name drv,
    s\<lparr>trace := trace s @ buffer_calls drv,
      array_buffer_binding := vbo_name drv,
      element_array_buffer_binding := ebo_name drv,
      buffer_store :=
        (let st = (if vbo_name drv = 0 then buffer_store s
                   else (buffer_store s)(vbo_name drv \<mapsto> object_bytes vertices))
         in if ebo_name drv = 0 then st else st(ebo_name drv \<mapsto> object_bytes indices))\<rparr>)"
  by (cases "vbo_name drv = 0"; cases "ebo_name drv = 0")
    (simp_all add: main_buffers_def Let_def emit_def glBindBuffer_def glBufferData_def
      bound_buffer_def buffer_calls_def sizeof_vertices sizeof_indices sizeof_scalar_def
      take_vertices take_indices)

lemma main_setup_ok:
  assumes "create_window_result drv = Some w" and "glad_load_result drv \<noteq> 0"
  shows "main_setup cfg drv =
         Inr (\<lparr>h_window = w, h_shader_program = program_name drv, h_VAO = vao_name drv,
               h_VBO = vbo_name drv, h_EBO = ebo_name drv\<rparr>,
              \<lparr>trace = window_calls cfg w @ [GlViewport 0 0 800 600] @ shader_calls cfg drv @
                       buffer_calls drv,
               close_flag = 0, framebuffer_size_callback_set = True,
               array_buffer_binding = vbo_name drv,
               element_array_buffer_binding = ebo_name drv,
               buffer_store =
                 (let st = (if vbo_name drv = 0 then Map.empty
                            else [vbo_name drv \<mapsto> object_bytes vertices])
                  in if ebo_name drv = 0 then st
                     else st(ebo_name drv \<mapsto> object_bytes indices))\<rparr>)"
  by (simp add: main_setup_def main_window_ok [OF assms] main_shaders_eq main_buffers_eq
      emits_def initial_world_def)

lemma main_setup_Inr:
  assumes "main_setup cfg drv = Inr (h, s)"
  shows "create_window_result drv = Some (h_window h)" and "glad_load_result drv \<noteq> 0"
proof -
  from assms obtain w s0 where w: "main_window cfg drv = Inr (w, s0)"
    by (cases "main_window cfg drv") (auto simp: main_setup_def)
  from assms w have "h_window h = w"
    by (auto simp: main_setup_def main_shaders_eq main_buffers_eq)
  with main_window_Inr [OF w]
  show "create_window_result drv = Some (h_window h)" and "glad_load_result drv \<noteq> 0"
    by simp_all
qed

lemma glDeleteBuffers_one:
  "glDeleteBuffers n [x] s =
   s\<lparr>trace := trace s @ [GlDeleteBuffers n [x]], buffer_store := (buffer_store s)(x := None)\<rparr>"
proof -
  have "(\<lambda>b. if b = x then None else buffer_store s b) = (buffer_store s)(x := None)"
    by (rule ext) simp
  then show ?thesis
    by (simp add: glDeleteBuffers_def Let_def emit_def cong: if_cong)
qed

lemma main_teardown_full:
  "main_teardown h s =
   (0, s\<lparr>trace := trace s @ teardown_calls h,
         buffer_store := (buffer_store s)(h_VBO h := None, h_EBO h := None)\<rparr>)"
  by (simp add: main_teardown_def Let_def emit_def glDeleteBuffers_one teardown_calls_def)

lemma main_teardown_eq:
  "fst (main_teardown h s) = 0"
  "trace (snd (main_teardown h s)) = trace s @ teardown_calls h"
  by (simp_all add: main_teardown_full)

lemma main_after_setup:
  "main_setup cfg drv = Inr (h, s) \<Longrightarrow>
   main cfg drv frames = map_option (main_teardown h) (render_loop h frames s)"
  by (simp add: main_def split: option.splits)

lemma main_early:
  "main_window cfg drv = Inl r \<Longrightarrow> main cfg drv frames = Some r"
  by (simp add: main_def main_setup_def)

lemma main_window_None:
  "create_window_result drv = None \<Longrightarrow>
   main_window cfg drv =
   Inl (- 1, emits [SpdlogInfo ''Initializing GLFW'' [], GlfwInit,
                    GlfwWindowHint GLFW_CONTEXT_VERSION_MAJOR (HintInt 3),
                    GlfwWindowHint GLFW_CONTEXT_VERSION_MINOR (HintInt 3),
                    GlfwWindowHint GLFW_OPENGL_PROFILE GLFW_OPENGL_CORE_PROFILE,
                    GlfwCreateWindow 800 600 ''gl'',
                    SpdlogError ''Failed to create a GLFW window. Exiting.'' [],
                    GlfwTerminate] initial_world)"
  by (simp add: main_window_def Let_def emit_def emits_def initial_world_def
      WINDOW_WIDTH_def WINDOW_HEIGHT_def)

lemma main_window_loader_failed:
  "create_window_result drv = Some w \<Longrightarrow> glad_load_result drv = 0 \<Longrightarrow>
   main_window cfg drv =
   Inl (- 1, (emits (window_calls cfg w @ [SpdlogError ''Failed to initialize GLAD'' []])
               initial_world)\<lparr>framebuffer_size_callback_set := True\<rparr>)"
  by (simp add: main_window_def Let_def emit_def emits_def initial_world_def window_calls_def
      glfwSetFramebufferSizeCallback_def WINDOW_WIDTH_def WINDOW_HEIGHT_def)

subsection \<open>The two fatal failures of setup\<close>

text \<open>
  C2. If \<^verbatim>\<open>glfwCreateWindow\<close> returns \<^verbatim>\<open>nullptr\<close>, the program logs the error, calls
  \<^verbatim>\<open>glfwTerminate\<close> and returns \<open>-1\<close>: the error message and the terminate call are
  the last two calls of the run, whatever the frames would have been, and nothing of
  the later setup, of the loop or of the teardown is executed.
\<close>

theorem window_creation_failure:
  assumes "create_window_result drv = None"
  shows "main cfg drv frames =
         Some (- 1, initial_world\<lparr>trace :=
           [SpdlogInfo ''Initializing GLFW'' [], GlfwInit,
            GlfwWindowHint GLFW_CONTEXT_VERSION_MAJOR (HintInt 3),
            GlfwWindowHint GLFW_CONTEXT_VERSION_MINOR (HintInt 3),
            GlfwWindowHint GLFW_OPENGL_PROFILE GLFW_OPENGL_CORE_PROFILE,
            GlfwCreateWindow WINDOW_WIDTH WINDOW_HEIGHT ''gl'',
            SpdlogError ''Failed to create a GLFW window. Exiting.'' [],
            GlfwTerminate]\<rparr>)"
  using main_early [OF main_window_None [OF assms]]
  by (simp add: emits_def initial_world_def WINDOW_WIDTH_def WINDOW_HEIGHT_def)

theorem window_creation_failure_witness:
  "create_window_result (example_driver\<lparr>create_window_result := None\<rparr>) = None \<and>
   map_option fst (main example_config (example_driver\<lparr>create_window_result := None\<rparr>)
     example_frames) = Some (- 1)"
  using window_creation_failure
    [of "example_driver\<lparr>create_window_result := None\<rparr>" example_config example_frames]
  by simp

text \<open>
  C9. If the loader \<^verbatim>\<open>gladLoadGLLoader\<close> returns 0, the program logs the error and
  returns \<open>-1\<close> at once: the error message is the last call of the run, and the run
  contains none of the calls of the teardown (no deletion of a GPU object, no
  \<^verbatim>\<open>glfwTerminate\<close>) and none of the later setup.
\<close>

theorem loader_failure:
  assumes "create_window_result drv = Some w" and "glad_load_result drv = 0"
  shows "\<exists>s. main cfg drv frames = Some (- 1, s) \<and>
             trace s = window_calls cfg w @ [SpdlogError ''Failed to initialize GLAD'' []] \<and>
             filter is_release_call (trace s) = [] \<and>
             buffer_store s = Map.empty"
  using main_early [OF main_window_loader_failed [OF assms]]
  by (simp add: emits_def initial_world_def window_calls_def)

theorem loader_failure_witness:
  "create_window_result (example_driver\<lparr>glad_load_result := 0\<rparr>) = Some 1 \<and>
   glad_load_result (example_driver\<lparr>glad_load_result := 0\<rparr>) = 0 \<and>
   (\<exists>s. main example_config (example_driver\<lparr>glad_load_result := 0\<rparr>) example_frames =
          Some (- 1, s) \<and>
        trace s = window_calls example_config 1 @
                  [SpdlogError ''Failed to initialize GLAD'' []] \<and>
        filter is_release_call (trace s) = [] \<and> buffer_store s = Map.empty)"
proof -
  have w: "create_window_result (example_driver\<lparr>glad_load_result := 0\<rparr>) = Some 1"
    by (simp add: example_driver_def)
  have g: "glad_load_result (example_driver\<lparr>glad_load_result := 0\<rparr>) = 0"
    by simp
  from loader_failure [OF w g] w g show ?thesis by blast
qed

text \<open>
  C10. The two early exits differ: when the loader fails, the run has initialised GLFW
  and created the window, and returns \<open>-1\<close> without any call of \<^verbatim>\<open>glfwTerminate\<close> (or
  of any other releasing operation); when the window cannot be created, the run calls
  \<^verbatim>\<open>glfwTerminate\<close> exactly once before it returns \<open>-1\<close>.
\<close>

theorem early_exits_differ:
  assumes "create_window_result drv = Some w" and "glad_load_result drv = 0"
    and "create_window_result drv' = None"
  shows "\<exists>s s'. main cfg drv frames = Some (- 1, s) \<and>
               main cfg drv' frames = Some (- 1, s') \<and>
               count_list (trace s) GlfwInit = 1 \<and>
               count_list (trace s) (GlfwCreateWindow WINDOW_WIDTH WINDOW_HEIGHT ''gl'') = 1 \<and>
               count_list (trace s) GlfwTerminate = 0 \<and>
               filter is_release_call (trace s) = [] \<and>
               count_list (trace s') GlfwTerminate = 1"
  using main_early [OF main_window_loader_failed [OF assms(1,2)]]
    main_early [OF main_window_None [OF assms(3)]]
  by (simp add: emits_def initial_world_def window_calls_def WINDOW_WIDTH_def WINDOW_HEIGHT_def)

theorem early_exits_differ_witness:
  "\<exists>s s'. main example_config (example_driver\<lparr>glad_load_result := 0\<rparr>) [] = Some (- 1, s) \<and>
          main example_config (example_driver\<lparr>create_window_result := None\<rparr>) [] =
            Some (- 1, s') \<and>
          count_list (trace s) GlfwInit = 1 \<and>
          count_list (trace s) (GlfwCreateWindow WINDOW_WIDTH WINDOW_HEIGHT ''gl'') = 1 \<and>
          count_list (trace s) GlfwTerminate = 0 \<and>
          filter is_release_call (trace s) = [] \<and>
          count_list (trace s') GlfwTerminate = 1"
proof -
  have w: "create_window_result (example_driver\<lparr>glad_load_result := 0\<rparr>) = Some 1"
    by (simp add: example_driver_def)
  have g: "glad_load_result (example_driver\<lparr>glad_load_result := 0\<rparr>) = 0"
    by simp
  have n: "create_window_result (example_driver\<lparr>create_window_result := None\<rparr>) = None"
    by simp
  show ?thesis by (rule early_exits_differ [OF w g n])
qed

subsection \<open>The frame and the loop\<close>

text \<open>
  C1. Started with the close flag unset on frames of which the last one processed is
  the first that sets the flag, the loop returns, and the calls it has added to the
  trace are one iteration for each of these frames followed by the final check of the
  flag: nothing else, and nothing in another order. An iteration is the check of the
  flag, the Escape query (followed, when the key is pressed, by the log line and the
  setting of the close flag), the clear colour and the clear of the colour buffer, the
  bind of the shader program and of the vertex array, one \<^verbatim>\<open>glDrawElements\<close> for 3
  indices of type unsigned int as triangles, the unbind of the vertex array, the buffer
  swap, and the poll of events (followed by what the callbacks of the polled events
  call). Started from the state that setup leaves, \<^verbatim>\<open>main\<close> returns 0 with exactly
  these iterations between the calls of setup and the five calls of teardown. Whether
  or not the loop returns, a frame entered with the flag unset adds exactly these calls.
\<close>

theorem render_iteration_sequence:
  assumes "close_flag s = 0" and "\<not> list_ex frame_closes pre" and "frame_closes fc"
  shows "(\<exists>s'. render_loop h (pre @ fc # rest) s = Some s' \<and>
            trace s' = trace s @
              concat (map (iteration_calls h (framebuffer_size_callback_set s)) (pre @ [fc])) @
              [GlfwWindowShouldClose (h_window h)]) \<and>
         (main_setup cfg drv = Inr (h, s) \<longrightarrow>
            (\<exists>s'. main cfg drv (pre @ fc # rest) = Some (0, s') \<and>
               trace s' = trace s @
                 concat (map (iteration_calls h (framebuffer_size_callback_set s))
                   (pre @ [fc])) @
                 [GlfwWindowShouldClose (h_window h)] @
                 [GlDeleteVertexArrays 1 [h_VAO h], GlDeleteBuffers 1 [h_VBO h],
                  GlDeleteBuffers 1 [h_EBO h], GlDeleteProgram (h_shader_program h),
                  GlfwTerminate])) \<and>
         iteration_calls h reg f =
           [GlfwWindowShouldClose (h_window h)] @
           [GlfwGetKey (h_window h) GLFW_KEY_ESCAPE] @
           (if escape_key f = GLFW_PRESS
            then [SpdlogInfo ''Escape key pressed'' [],
                  GlfwSetWindowShouldClose (h_window h) 1]
            else []) @
           [GlClearColor 0.11 0.11 0.11 1.0, GlClear GL_COLOR_BUFFER_BIT] @
           [GlUseProgram (h_shader_program h), GlBindVertexArray (h_VAO h)] @
           [GlDrawElements GL_TRIANGLES 3 GL_UNSIGNED_INT 0] @
           [GlBindVertexArray 0] @
           [GlfwSwapBuffers (h_window h)] @
           [GlfwPollEvents] @
           concat (map (event_calls reg) (events f)) \<and>
         render_loop h (f # fs) s =
           render_loop h fs (render_frame h f (emit (GlfwWindowShouldClose (h_window h)) s)) \<and>
         trace (render_frame h f (emit (GlfwWindowShouldClose (h_window h)) s)) =
           trace s @ iteration_calls h (framebuffer_size_callback_set s) f"
proof (intro conjI impI)
  note run = render_loop_run [OF assms, of h rest]
  show "\<exists>s'. render_loop h (pre @ fc # rest) s = Some s' \<and>
            trace s' = trace s @
              concat (map (iteration_calls h (framebuffer_size_callback_set s)) (pre @ [fc])) @
              [GlfwWindowShouldClose (h_window h)]"
    by (simp add: run)
  show "\<exists>s'. main cfg drv (pre @ fc # rest) = Some (0, s') \<and>
               trace s' = trace s @
                 concat (map (iteration_calls h (framebuffer_size_callback_set s))
                   (pre @ [fc])) @
                 [GlfwWindowShouldClose (h_window h)] @
                 [GlDeleteVertexArrays 1 [h_VAO h], GlDeleteBuffers 1 [h_VBO h],
                  GlDeleteBuffers 1 [h_EBO h], GlDeleteProgram (h_shader_program h),
                  GlfwTerminate]"
    if "main_setup cfg drv = Inr (h, s)"
    using main_after_setup [OF that, of "pre @ fc # rest"]
    by (simp add: run main_teardown_full teardown_calls_def)
  show "iteration_calls h reg f =
           [GlfwWindowShouldClose (h_window h)] @
           [GlfwGetKey (h_window h) GLFW_KEY_ESCAPE] @
           (if escape_key f = GLFW_PRESS
            then [SpdlogInfo ''Escape key pressed'' [],
                  GlfwSetWindowShouldClose (h_window h) 1]
            else []) @
           [GlClearColor 0.11 0.11 0.11 1.0, GlClear GL_COLOR_BUFFER_BIT] @
           [GlUseProgram (h_shader_program h), GlBindVertexArray (h_VAO h)] @
           [GlDrawElements GL_TRIANGLES 3 GL_UNSIGNED_INT 0] @
           [GlBindVertexArray 0] @
           [GlfwSwapBuffers (h_window h)] @
           [GlfwPollEvents] @
           concat (map (event_calls reg) (events f))"
    by (simp add: iteration_calls_def escape_calls_def draw_calls_def)
  from assms(1) show "render_loop h (f # fs) s =
           render_loop h fs (render_frame h f (emit (GlfwWindowShouldClose (h_window h)) s))"
    by (rule render_loop_step)
  show "trace (render_frame h f (emit (GlfwWindowShouldClose (h_window h)) s)) =
           trace s @ iteration_calls h (framebuffer_size_callback_set s) f"
    by (simp add: render_frame_eq emit_def iteration_calls_def)
qed

theorem render_iteration_sequence_witness:
  "\<exists>s. main_setup example_config example_driver = Inr (example_handles, s) \<and>
       close_flag s = 0 \<and>
       \<not> list_ex frame_closes [\<lparr>escape_key = 0, events = [FramebufferSize 640 480]\<rparr>] \<and>
       frame_closes \<lparr>escape_key = 1, events = []\<rparr> \<and>
       (\<exists>s'. main example_config example_driver
                ([\<lparr>escape_key = 0, events = [FramebufferSize 640 480]\<rparr>] @
                 \<lparr>escape_key = 1, events = []\<rparr> # []) = Some (0, s') \<and>
             trace s' = trace s @
               [GlfwWindowShouldClose 1, GlfwGetKey 1 GLFW_KEY_ESCAPE,
                GlClearColor 0.11 0.11 0.11 1.0, GlClear GL_COLOR_BUFFER_BIT,
                GlUseProgram 3, GlBindVertexArray 1,
                GlDrawElements GL_TRIANGLES 3 GL_UNSIGNED_INT 0,
                GlBindVertexArray 0, GlfwSwapBuffers 1, GlfwPollEvents,
                SpdlogInfo ''Resizing framebuffer to {}x{}'' [ArgInt 640, ArgInt 480],
                GlViewport 0 0 640 480,
                GlfwWindowShouldClose 1, GlfwGetKey 1 GLFW_KEY_ESCAPE,
                SpdlogInfo ''Escape key pressed'' [], GlfwSetWindowShouldClose 1 1,
                GlClearColor 0.11 0.11 0.11 1.0, GlClear GL_COLOR_BUFFER_BIT,
                GlUseProgram 3, GlBindVertexArray 1,
                GlDrawElements GL_TRIANGLES 3 GL_UNSIGNED_INT 0,
                GlBindVertexArray 0, GlfwSwapBuffers 1, GlfwPollEvents,
                GlfwWindowShouldClose 1,
                GlDeleteVertexArrays 1 [1], GlDeleteBuffers 1 [1], GlDeleteBuffers 1 [2],
                GlDeleteProgram 3, GlfwTerminate])"
proof -
  have w: "create_window_result example_driver = Some 1"
    and g: "glad_load_result example_driver \<noteq> 0"
    by (simp_all add: example_driver_def)
  from main_setup_ok [OF w g, of example_config] obtain s where
    s: "main_setup example_config example_driver = Inr (example_handles, s)"
    and flag: "close_flag s = 0" and reg: "framebuffer_size_callback_set s"
    by (simp add: example_handles_def example_driver_def)
  have np: "\<not> list_ex frame_closes [\<lparr>escape_key = 0, events = [FramebufferSize 640 480]\<rparr>]"
    and c: "frame_closes \<lparr>escape_key = 1, events = []\<rparr>"
    by (simp_all add: frame_closes_def GLFW_PRESS_def)
  from render_iteration_sequence
    [OF flag np c, of example_handles "[]" example_config example_driver] s
  have "\<exists>s'. main example_config example_driver
                ([\<lparr>escape_key = 0, events = [FramebufferSize 640 480]\<rparr>] @
                 \<lparr>escape_key = 1, events = []\<rparr> # []) = Some (0, s') \<and>
             trace s' = trace s @
               concat (map (iteration_calls example_handles (framebuffer_size_callback_set s))
                 ([\<lparr>escape_key = 0, events = [FramebufferSize 640 480]\<rparr>] @
                  [\<lparr>escape_key = 1, events = []\<rparr>])) @
               [GlfwWindowShouldClose (h_window example_handles)] @
               [GlDeleteVertexArrays 1 [h_VAO example_handles],
                GlDeleteBuffers 1 [h_VBO example_handles],
                GlDeleteBuffers 1 [h_EBO example_handles],
                GlDeleteProgram (h_shader_program example_handles), GlfwTerminate]"
    by blast
  then have "\<exists>s'. main example_config example_driver
                ([\<lparr>escape_key = 0, events = [FramebufferSize 640 480]\<rparr>] @
                 \<lparr>escape_key = 1, events = []\<rparr> # []) = Some (0, s') \<and>
             trace s' = trace s @
               [GlfwWindowShouldClose 1, GlfwGetKey 1 GLFW_KEY_ESCAPE,
                GlClearColor 0.11 0.11 0.11 1.0, GlClear GL_COLOR_BUFFER_BIT,
                GlUseProgram 3, GlBindVertexArray 1,
                GlDrawElements GL_TRIANGLES 3 GL_UNSIGNED_INT 0,
                GlBindVertexArray 0, GlfwSwapBuffers 1, GlfwPollEvents,
                SpdlogInfo ''Resizing framebuffer to {}x{}'' [ArgInt 640, ArgInt 480],
                GlViewport 0 0 640 480,
                GlfwWindowShouldClose 1, GlfwGetKey 1 GLFW_KEY_ESCAPE,
                SpdlogInfo ''Escape key pressed'' [], GlfwSetWindowShouldClose 1 1,
                GlClearColor 0.11 0.11 0.11 1.0, GlClear GL_COLOR_BUFFER_BIT,
                GlUseProgram 3, GlBindVertexArray 1,
                GlDrawElements GL_TRIANGLES 3 GL_UNSIGNED_INT 0,
                GlBindVertexArray 0, GlfwSwapBuffers 1, GlfwPollEvents,
                GlfwWindowShouldClose 1,
                GlDeleteVertexArrays 1 [1], GlDeleteBuffers 1 [1], GlDeleteBuffers 1 [2],
                GlDeleteProgram 3, GlfwTerminate]"
    by (simp add: reg iteration_calls_def escape_calls_def draw_calls_def example_handles_def
        GLFW_PRESS_def)
  with s flag np c show ?thesis by blast
qed

text \<open>
  C5. The resize callback, called with width \<open>W\<close> and height \<open>H\<close>, adds to the trace
  its log line and one \<^verbatim>\<open>glViewport(0, 0, W, H)\<close> and changes nothing else of the
  state: in particular the contents of all buffers stay as they were. A polled resize
  event runs exactly this callback once it is registered.
\<close>

theorem resize_updates_viewport_only:
  "framebuffer_resize_callback window W H s =
     s\<lparr>trace := trace s @
         [SpdlogInfo ''Resizing framebuffer to {}x{}'' [ArgInt W, ArgInt H],
          GlViewport 0 0 W H]\<rparr> \<and>
   filter is_viewport
     (drop (length (trace s)) (trace (framebuffer_resize_callback window W H s))) =
     [GlViewport 0 0 W H] \<and>
   buffer_store (framebuffer_resize_callback window W H s) = buffer_store s \<and>
   dispatch (framebuffer_resize_callback window) (FramebufferSize W H) s =
     (if framebuffer_size_callback_set s then framebuffer_resize_callback window W H s else s)"
  by (simp add: framebuffer_resize_callback_def emit_def)

text \<open>
  C6. Seen set at the head of the loop, the close flag ends the loop with no further
  frame. A frame in which Escape is found pressed or in which the platform reports a
  close request leaves the flag set, so the loop ends at the next head, after that one
  frame and before the next. A list of frames that contains such a frame always lets
  the loop return.
\<close>

theorem close_flag_ends_loop:
  "(close_flag s \<noteq> 0 \<longrightarrow>
      render_loop h fs s = Some (emit (GlfwWindowShouldClose (h_window h)) s)) \<and>
   (close_flag s = 0 \<and> frame_closes f \<longrightarrow>
      close_flag (render_frame h f (emit (GlfwWindowShouldClose (h_window h)) s)) = 1 \<and>
      render_loop h (f # fs) s =
        Some (emit (GlfwWindowShouldClose (h_window h))
               (render_frame h f (emit (GlfwWindowShouldClose (h_window h)) s)))) \<and>
   (list_ex frame_closes fs \<longrightarrow> (\<exists>s'. render_loop h fs s = Some s'))"
proof (intro conjI impI)
  assume "close_flag s \<noteq> 0"
  then show "render_loop h fs s = Some (emit (GlfwWindowShouldClose (h_window h)) s)"
    by (rule render_loop_exit)
next
  let ?s1 = "render_frame h f (emit (GlfwWindowShouldClose (h_window h)) s)"
  assume a: "close_flag s = 0 \<and> frame_closes f"
  then show flag: "close_flag ?s1 = 1"
    by (simp add: render_frame_eq)
  then have "close_flag ?s1 \<noteq> 0" by simp
  then have "render_loop h fs ?s1 = Some (emit (GlfwWindowShouldClose (h_window h)) ?s1)"
    by (rule render_loop_exit)
  with a show "render_loop h (f # fs) s = Some (emit (GlfwWindowShouldClose (h_window h)) ?s1)"
    by (simp only: render_loop_step)
next
  assume "list_ex frame_closes fs"
  then show "\<exists>s'. render_loop h fs s = Some s'"
    by (rule render_loop_terminates)
qed

theorem close_flag_ends_loop_witness:
  "close_flag (initial_world\<lparr>close_flag := 1\<rparr>) \<noteq> 0 \<and>
   render_loop example_handles example_frames (initial_world\<lparr>close_flag := 1\<rparr>) =
     Some (emit (GlfwWindowShouldClose (h_window example_handles))
            (initial_world\<lparr>close_flag := 1\<rparr>)) \<and>
   close_flag initial_world = 0 \<and>
   frame_closes \<lparr>escape_key = 0, events = [WindowClose]\<rparr> \<and>
   render_loop example_handles (\<lparr>escape_key = 0, events = [WindowClose]\<rparr> # example_frames)
       initial_world =
     Some (emit (GlfwWindowShouldClose (h_window example_handles))
            (render_frame example_handles \<lparr>escape_key = 0, events = [WindowClose]\<rparr>
              (emit (GlfwWindowShouldClose (h_window example_handles)) initial_world))) \<and>
   list_ex frame_closes example_frames \<and>
   (\<exists>s'. render_loop example_handles example_frames initial_world = Some s')"
proof -
  have 1: "close_flag (initial_world\<lparr>close_flag := 1\<rparr>) \<noteq> 0"
    by simp
  have 2: "close_flag initial_world = 0"
    by (simp add: initial_world_def)
  have 3: "frame_closes \<lparr>escape_key = 0, events = [WindowClose]\<rparr>"
    by (simp add: frame_closes_def)
  have 4: "list_ex frame_closes example_frames"
    by (simp add: example_frames_def frame_closes_def GLFW_PRESS_def)
  from close_flag_ends_loop
    [of "initial_world\<lparr>close_flag := 1\<rparr>" example_handles example_frames
      "\<lparr>escape_key = 0, events = [WindowClose]\<rparr>"]
    close_flag_ends_loop
    [of initial_world example_handles example_frames
      "\<lparr>escape_key = 0, events = [WindowClose]\<rparr>"]
    1 2 3 4
  show ?thesis by blast
qed

lemma main_never_resets:
  assumes "main cfg drv frames = Some (status, s')"
  shows "filter resets_close_flag (trace s') = []"
proof (cases "create_window_result drv")
  case None
  from main_early [OF main_window_None [OF None], of cfg frames] assms show ?thesis
    by (auto simp: emits_def initial_world_def)
next
  case (Some w)
  show ?thesis
  proof (cases "glad_load_result drv = 0")
    case True
    from main_early [OF main_window_loader_failed [OF Some True], of cfg frames] assms
    show ?thesis
      by (auto simp: emits_def initial_world_def window_calls_def)
  next
    case False
    note reached = main_setup_ok [OF Some False, of cfg]
    from assms main_after_setup [OF reached, of frames] obtain s1 where
      loop: "render_loop \<lparr>h_window = w, h_shader_program = program_name drv,
               h_VAO = vao_name drv, h_VBO = vbo_name drv, h_EBO = ebo_name drv\<rparr> frames
               \<lparr>trace = window_calls cfg w @ [GlViewport 0 0 800 600] @ shader_calls cfg drv @
                         buffer_calls drv,
                 close_flag = 0, framebuffer_size_callback_set = True,
                 array_buffer_binding = vbo_name drv,
                 element_array_buffer_binding = ebo_name drv,
                 buffer_store =
                   (let st = (if vbo_name drv = 0 then Map.empty
                              else [vbo_name drv \<mapsto> object_bytes vertices])
                    in if ebo_name drv = 0 then st
                       else st(ebo_name drv \<mapsto> object_bytes indices))\<rparr> = Some s1"
      and s': "s' = snd (main_teardown \<lparr>h_window = w, h_shader_program = program_name drv,
               h_VAO = vao_name drv, h_VBO = vbo_name drv, h_EBO = ebo_name drv\<rparr> s1)"
      by auto
    from render_loop_trace [OF loop] obtain ext where
      ext: "trace s1 = (window_calls cfg w @ [GlViewport 0 0 800 600] @ shader_calls cfg drv @
                         buffer_calls drv) @ ext"
      and "list_all is_loop_call ext"
      by auto
    then have "filter resets_close_flag ext = []"
      by (simp add: loop_calls_keep(3))
    with ext s' show ?thesis
      by (simp add: main_teardown_eq teardown_calls_def window_calls_def shader_calls_def
          buffer_calls_def)
  qed
qed

text \<open>
  C7. In a frame in which \<^verbatim>\<open>glfwGetKey\<close> reports Escape pressed, the program calls
  \<^verbatim>\<open>glfwSetWindowShouldClose\<close> once, with the value true, and the flag is set when the
  frame ends; in any other frame it does not call it. No frame clears a flag that is
  set, and no run of the program contains a call that would clear it.
\<close>

theorem escape_sets_flag_once:
  "(escape_key f = GLFW_PRESS \<longrightarrow>
      filter is_set_should_close (drop (length (trace s)) (trace (render_frame h f s))) =
        [GlfwSetWindowShouldClose (h_window h) 1] \<and>
      close_flag (render_frame h f s) = 1) \<and>
   (escape_key f \<noteq> GLFW_PRESS \<longrightarrow>
      filter is_set_should_close (drop (length (trace s)) (trace (render_frame h f s))) = []) \<and>
   (close_flag s \<noteq> 0 \<longrightarrow> close_flag (render_frame h f s) \<noteq> 0) \<and>
   (main cfg drv frames = Some (status, s') \<longrightarrow> filter resets_close_flag (trace s') = [])"
proof -
  have "filter is_set_should_close (event_calls reg e) = []" for reg e
    by (cases e) simp_all
  then have ev: "filter is_set_should_close (concat (map (event_calls reg) evs)) = []"
    for reg evs
    by (induction evs) simp_all
  show ?thesis
    by (simp add: render_frame_eq escape_calls_def draw_calls_def ev frame_closes_def
        main_never_resets)
qed

theorem escape_sets_flag_once_witness:
  "escape_key \<lparr>escape_key = 1, events = []\<rparr> = GLFW_PRESS \<and>
   filter is_set_should_close
     (trace (render_frame example_handles \<lparr>escape_key = 1, events = []\<rparr> initial_world)) =
     [GlfwSetWindowShouldClose 1 1] \<and>
   escape_key \<lparr>escape_key = 0, events = []\<rparr> \<noteq> GLFW_PRESS \<and>
   filter is_set_should_close
     (trace (render_frame example_handles \<lparr>escape_key = 0, events = []\<rparr> initial_world)) = [] \<and>
   close_flag (initial_world\<lparr>close_flag := 1\<rparr>) \<noteq> 0 \<and>
   close_flag (render_frame example_handles \<lparr>escape_key = 0, events = []\<rparr>
     (initial_world\<lparr>close_flag := 1\<rparr>)) \<noteq> 0 \<and>
   (\<exists>s'. main example_config example_driver example_frames = Some (0, s') \<and>
         filter resets_close_flag (trace s') = [])"
proof -
  have run: "\<exists>s'. main example_config example_driver example_frames = Some (0, s')"
  proof -
    have w: "create_window_result example_driver = Some 1"
      and g: "glad_load_result example_driver \<noteq> 0"
      by (simp_all add: example_driver_def)
    have "list_ex frame_closes example_frames"
      by (simp add: example_frames_def frame_closes_def GLFW_PRESS_def)
    from render_loop_terminates [OF this] main_after_setup [OF main_setup_ok [OF w g]]
    show ?thesis
      by (metis main_teardown_eq(1) option.simps(9) prod.collapse)
  qed
  then obtain s' where s': "main example_config example_driver example_frames = Some (0, s')"
    by blast
  from escape_sets_flag_once
    [of "\<lparr>escape_key = 1, events = []\<rparr>" initial_world example_handles
      example_config example_driver example_frames 0 s']
    escape_sets_flag_once
    [of "\<lparr>escape_key = 0, events = []\<rparr>" initial_world example_handles
      example_config example_driver example_frames 0 s']
    escape_sets_flag_once
    [of "\<lparr>escape_key = 0, events = []\<rparr>" "initial_world\<lparr>close_flag := 1\<rparr>" example_handles
      example_config example_driver example_frames 0 s']
    s'
  show ?thesis
    by (simp add: GLFW_PRESS_def initial_world_def example_handles_def)
qed

subsection \<open>Shader failures, teardown and the buffers\<close>

lemma main_teardown_without_diagnostics:
  "main_teardown h (without_diagnostics s) = map_prod id without_diagnostics (main_teardown h s)"
  by (simp add: main_teardown_full without_diagnostics_def teardown_calls_def)

lemma main_setup_all_shaders_ok:
  assumes "main_setup cfg drv = Inr (h, s)"
  shows "main_setup cfg (all_shaders_ok drv) = Inr (h, without_diagnostics s)"
proof -
  from main_setup_Inr [OF assms]
  have w: "create_window_result drv = Some (h_window h)" and g: "glad_load_result drv \<noteq> 0"
    by simp_all
  then have w': "create_window_result (all_shaders_ok drv) = Some (h_window h)"
    and g': "glad_load_result (all_shaders_ok drv) \<noteq> 0"
    by (simp_all add: all_shaders_ok_def)
  have calls: "shader_calls cfg (all_shaders_ok drv) =
               filter (\<lambda>c. \<not> is_diagnostic c) (shader_calls cfg drv)"
    by (simp add: shader_calls_def all_shaders_ok_def)
  have keep: "filter (\<lambda>c. \<not> is_diagnostic c) (window_calls cfg (h_window h)) =
              window_calls cfg (h_window h)"
    "filter (\<lambda>c. \<not> is_diagnostic c) (buffer_calls drv) = buffer_calls drv"
    "buffer_calls (all_shaders_ok drv) = buffer_calls drv"
    by (simp_all add: window_calls_def buffer_calls_def all_shaders_ok_def)
  have names: "program_name (all_shaders_ok drv) = program_name drv"
    "vao_name (all_shaders_ok drv) = vao_name drv"
    "vbo_name (all_shaders_ok drv) = vbo_name drv"
    "ebo_name (all_shaders_ok drv) = ebo_name drv"
    by (simp_all add: all_shaders_ok_def)
  from assms have "main_setup cfg (all_shaders_ok drv) =
        Inr (h, s\<lparr>trace := filter (\<lambda>c. \<not> is_diagnostic c) (trace s)\<rparr>)"
    unfolding main_setup_ok [OF w g] main_setup_ok [OF w' g']
    by (auto simp: calls keep names Let_def cong: if_cong)
  then show ?thesis
    by (simp only: without_diagnostics_def)
qed

text \<open>
  C3. When window and loader succeed, setup always reaches the loop, whatever the three
  status values are. Each failed status adds the query of the info log and one error
  line carrying the string the driver wrote, and nothing else: with these diagnostic
  calls taken out, setup and the whole run are those of the driver that reports
  success three times (same handles, same state at the head of the loop, same exit
  status, same calls in the same order).
\<close>

theorem shader_failure_continues:
  assumes "create_window_result drv = Some w" and "glad_load_result drv \<noteq> 0"
  shows "\<exists>h s.
     main_setup cfg drv = Inr (h, s) \<and>
     main_setup cfg (all_shaders_ok drv) = Inr (h, without_diagnostics s) \<and>
     filter is_diagnostic (trace s) =
       (if vertex_compile_status drv = 0
        then [GlGetShaderInfoLog (vertex_shader_name drv) 512,
              SpdlogError ''Vertex shader compilation failed: {}''
                [ArgStr (vertex_info_log drv)]]
        else []) @
       (if fragment_compile_status drv = 0
        then [GlGetShaderInfoLog (fragment_shader_name drv) 512,
              SpdlogError ''Fragment shader compilation failed: {}''
                [ArgStr (fragment_info_log drv)]]
        else []) @
       (if link_status drv = 0
        then [GlGetProgramInfoLog (program_name drv) 512,
              SpdlogError ''Shader program compilation failed: {}''
                [ArgStr (program_info_log drv)]]
        else []) \<and>
     main cfg drv frames = map_option (main_teardown h) (render_loop h frames s) \<and>
     main cfg (all_shaders_ok drv) frames =
       map_option (map_prod id without_diagnostics) (main cfg drv frames)"
proof -
  let ?h = "\<lparr>h_window = w, h_shader_program = program_name drv, h_VAO = vao_name drv,
             h_VBO = vbo_name drv, h_EBO = ebo_name drv\<rparr>"
  from main_setup_ok [OF assms, of cfg] obtain s where
    s: "main_setup cfg drv = Inr (?h, s)"
    and tr: "trace s = window_calls cfg w @ [GlViewport 0 0 800 600] @ shader_calls cfg drv @
                       buffer_calls drv"
    by simp
  note ok = main_setup_all_shaders_ok [OF s]
  have diag: "filter is_diagnostic (trace s) =
       (if vertex_compile_status drv = 0
        then [GlGetShaderInfoLog (vertex_shader_name drv) 512,
              SpdlogError ''Vertex shader compilation failed: {}''
                [ArgStr (vertex_info_log drv)]]
        else []) @
       (if fragment_compile_status drv = 0
        then [GlGetShaderInfoLog (fragment_shader_name drv) 512,
              SpdlogError ''Fragment shader compilation failed: {}''
                [ArgStr (fragment_info_log drv)]]
        else []) @
       (if link_status drv = 0
        then [GlGetProgramInfoLog (program_name drv) 512,
              SpdlogError ''Shader program compilation failed: {}''
                [ArgStr (program_info_log drv)]]
        else [])"
    by (simp add: tr window_calls_def shader_calls_def buffer_calls_def)
  have run: "main cfg drv frames = map_option (main_teardown ?h) (render_loop ?h frames s)"
    by (rule main_after_setup [OF s])
  have "main cfg (all_shaders_ok drv) frames =
        map_option (main_teardown ?h) (render_loop ?h frames (without_diagnostics s))"
    by (rule main_after_setup [OF ok])
  also have "\<dots> = map_option (map_prod id without_diagnostics) (main cfg drv frames)"
    by (cases "render_loop ?h frames s")
      (simp_all add: run render_loop_without_diagnostics main_teardown_without_diagnostics)
  finally show ?thesis
    using s ok diag run by blast
qed

theorem shader_failure_continues_witness:
  "create_window_result
     (example_driver\<lparr>fragment_compile_status := 0, fragment_info_log := ''0:1: error''\<rparr>) =
     Some 1 \<and>
   glad_load_result
     (example_driver\<lparr>fragment_compile_status := 0, fragment_info_log := ''0:1: error''\<rparr>) \<noteq> 0 \<and>
   (\<exists>h s.
     main_setup example_config
       (example_driver\<lparr>fragment_compile_status := 0, fragment_info_log := ''0:1: error''\<rparr>) =
       Inr (h, s) \<and>
     filter is_diagnostic (trace s) =
       [GlGetShaderInfoLog 2 512,
        SpdlogError ''Fragment shader compilation failed: {}'' [ArgStr ''0:1: error'']] \<and>
     main example_config
       (example_driver\<lparr>fragment_compile_status := 0, fragment_info_log := ''0:1: error''\<rparr>)
       example_frames = map_option (main_teardown h) (render_loop h example_frames s))"
proof -
  let ?drv = "example_driver\<lparr>fragment_compile_status := 0, fragment_info_log := ''0:1: error''\<rparr>"
  have w: "create_window_result ?drv = Some 1" and g: "glad_load_result ?drv \<noteq> 0"
    by (simp_all add: example_driver_def)
  from shader_failure_continues [OF w g, of example_config example_frames]
  obtain h s where
    "main_setup example_config ?drv = Inr (h, s)"
    "filter is_diagnostic (trace s) =
       (if vertex_compile_status ?drv = 0
        then [GlGetShaderInfoLog (vertex_shader_name ?drv) 512,
              SpdlogError ''Vertex shader compilation failed: {}''
                [ArgStr (vertex_info_log ?drv)]]
        else []) @
       (if fragment_compile_status ?drv = 0
        then [GlGetShaderInfoLog (fragment_shader_name ?drv) 512,
              SpdlogError ''Fragment shader compilation failed: {}''
                [ArgStr (fragment_info_log ?drv)]]
        else []) @
       (if link_status ?drv = 0
        then [GlGetProgramInfoLog (program_name ?drv) 512,
              SpdlogError ''Shader program compilation failed: {}''
                [ArgStr (program_info_log ?drv)]]
        else [])"
    "main example_config ?drv example_frames =
       map_option (main_teardown h) (render_loop h example_frames s)"
    by blast
  then have "main_setup example_config ?drv = Inr (h, s) \<and>
     filter is_diagnostic (trace s) =
       [GlGetShaderInfoLog 2 512,
        SpdlogError ''Fragment shader compilation failed: {}'' [ArgStr ''0:1: error'']] \<and>
     main example_config ?drv example_frames =
       map_option (main_teardown h) (render_loop h example_frames s)"
    by (simp add: example_driver_def)
  with w g show ?thesis by blast
qed







end
